theory Spec2Isabelle
  imports Complex_Main
begin

section \<open>Data model (room.py, guest.py, booking.py, hotel.py)\<close>

text \<open>
  A \<^verbatim>\<open>datetime.date\<close> is represented by its proleptic Gregorian ordinal
  (\<^verbatim>\<open>date.toordinal()\<close>): comparison of dates is comparison of ordinals and
  \<^verbatim>\<open>(d2 - d1).days\<close> is their difference. Prices and amounts are Python floats;
  they are idealised as reals (no rounding, no NaN, no infinities).
\<close>

type_synonym date = int

record room =
  number :: string
  room_type :: string
  price :: real
  is_occupied :: bool

record guest =
  guest_id :: string
  name :: string
  phone :: string
  email :: string
  address :: string

text \<open>Field \<^verbatim>\<open>guest_id\<close> of \<^verbatim>\<open>Booking\<close> is \<open>booking_guest_id\<close> here, since
  record fields share one name space.\<close>

record booking =
  booking_id :: string
  booking_guest_id :: string
  room_number :: string
  check_in :: date
  check_out :: date
  is_active :: bool

text \<open>Field \<^verbatim>\<open>booking_id\<close> of \<^verbatim>\<open>Bill\<close> is \<open>bill_booking_id\<close> here. The status is the
  string the code stores; \<^verbatim>\<open>Bill.__init__\<close> always sets \<^verbatim>\<open>payment_date = None\<close>.\<close>

record bill =
  bill_id :: string
  bill_booking_id :: string
  amount :: real
  status :: string
  payment_date :: "date option"

definition Bill :: "string \<Rightarrow> string \<Rightarrow> real \<Rightarrow> bill" where
  "Bill bid bkid amt =
     \<lparr>bill_id = bid, bill_booking_id = bkid, amount = amt,
      status = ''UNPAID'', payment_date = None\<rparr>"

definition Booking :: "string \<Rightarrow> string \<Rightarrow> string \<Rightarrow> date \<Rightarrow> date \<Rightarrow> booking" where
  "Booking bid gid rn ci co =
     \<lparr>booking_id = bid, booking_guest_id = gid, room_number = rn,
      check_in = ci, check_out = co, is_active = True\<rparr>"

definition Room :: "string \<Rightarrow> string \<Rightarrow> real \<Rightarrow> room" where
  "Room n t p = \<lparr>number = n, room_type = t, price = p, is_occupied = False\<rparr>"

definition Guest :: "string \<Rightarrow> string \<Rightarrow> string \<Rightarrow> string \<Rightarrow> string \<Rightarrow> guest" where
  "Guest gid n p e a = \<lparr>guest_id = gid, name = n, phone = p, email = e, address = a\<rparr>"

text \<open>The in-memory store of \<^verbatim>\<open>HotelManager\<close>: four lists, in insertion order.\<close>

record hotel =
  rooms :: "room list"
  guests :: "guest list"
  bookings :: "booking list"
  bills :: "bill list"

definition empty_hotel :: hotel where
  "empty_hotel = \<lparr>rooms = [], guests = [], bookings = [], bills = []\<rparr>"

subsection \<open>Python truthiness of optional string arguments\<close>

text \<open>\<^verbatim>\<open>if x\<close> on a \<^verbatim>\<open>str\<close> or \<^verbatim>\<open>None\<close>: false for \<^verbatim>\<open>None\<close> and for the empty string.\<close>

fun truthy :: "string option \<Rightarrow> bool" where
  "truthy None = False"
| "truthy (Some s) = (s \<noteq> [])"

text \<open>ASCII characters that \<^verbatim>\<open>str.strip()\<close> removes: tab, LF, VT, FF, CR, the four
  separators 0x1C..0x1F and the space. (Characters here are bytes; the non-ASCII
  white space of Python is outside this model.)\<close>

definition is_space :: "char \<Rightarrow> bool" where
  "is_space c = (of_char c \<in> {9, 10, 11, 12, 13, 28, 29, 30, 31, 32 :: nat})"

text \<open>\<^verbatim>\<open>if x and x.strip()\<close>: \<^verbatim>\<open>x\<close> is present and has a character that is not white space.\<close>

fun nonblank :: "string option \<Rightarrow> bool" where
  "nonblank None = False"
| "nonblank (Some s) = (\<exists>c \<in> set s. \<not> is_space c)"

section \<open>Look-ups\<close>

definition find_room :: "hotel \<Rightarrow> string \<Rightarrow> room option" where
  "find_room h rn = List.find (\<lambda>r. number r = rn) (rooms h)"

definition find_guest :: "hotel \<Rightarrow> string \<Rightarrow> guest option" where
  "find_guest h gid = List.find (\<lambda>g. guest_id g = gid) (guests h)"

definition find_booking :: "hotel \<Rightarrow> string \<Rightarrow> booking option" where
  "find_booking h bid = List.find (\<lambda>b. booking_id b = bid) (bookings h)"

section \<open>Availability (HotelManager.is_room_available)\<close>

text \<open>The loop over \<^verbatim>\<open>self.bookings\<close>, one equation per iteration; \<^verbatim>\<open>continue\<close> and
  falling out of both \<^verbatim>\<open>if\<close>s go on with the rest of the list.\<close>

fun room_available_in :: "booking list \<Rightarrow> string \<Rightarrow> date \<Rightarrow> date \<Rightarrow> string option \<Rightarrow> bool" where
  "room_available_in [] rn ci co ex = True"
| "room_available_in (b # bs) rn ci co ex =
     (if room_number b = rn then
        if truthy ex \<and> Some (booking_id b) = ex then room_available_in bs rn ci co ex
        else if ci < check_out b \<and> co > check_in b then False
        else room_available_in bs rn ci co ex
      else room_available_in bs rn ci co ex)"

definition is_room_available :: "hotel \<Rightarrow> string \<Rightarrow> date \<Rightarrow> date \<Rightarrow> string option \<Rightarrow> bool" where
  "is_room_available h rn ci co ex = room_available_in (bookings h) rn ci co ex"

section \<open>Errors\<close>

text \<open>
  Every exception the manager raises is a \<^verbatim>\<open>ValueError\<close>; the constructors say which
  \<^verbatim>\<open>raise\<close> it was.
  \<^item> \<open>StrptimeError\<close>: raised by \<^verbatim>\<open>datetime.strptime\<close> on a string it cannot parse;
  \<^item> \<open>CheckOutNotAfterCheckIn\<close>: \<^verbatim>\<open>ValueError("Check-out date must be after check-in date.")\<close>;
  \<^item> \<open>EndBeforeStart\<close>: \<^verbatim>\<open>ValueError("End date must be after start date.")\<close>;
  \<^item> \<open>InvalidDateFormat e\<close>: the re-raise of \<^verbatim>\<open>create_booking\<close> and of
    \<^verbatim>\<open>generate_revenue_report\<close>,
    \<^verbatim>\<open>ValueError(f"Invalid date format. Please use YYYY-MM-DD format. {str(e)}")\<close>,
    which carries the message of the error \<open>e\<close> it caught;
  \<^item> \<open>InvalidCheckInFormat\<close>, \<open>InvalidCheckOutFormat\<close>: the two re-raises of
    \<^verbatim>\<open>update_booking\<close>.
\<close>

datatype value_error =
    StrptimeError
  | CheckOutNotAfterCheckIn
  | EndBeforeStart
  | InvalidDateFormat value_error
  | InvalidCheckInFormat
  | InvalidCheckOutFormat

section \<open>Room and guest management\<close>

text \<open>An object found by one of the \<^verbatim>\<open>find_\<close> loops and then assigned to is the first
  element of its list that passes the test; the list keeps its order.\<close>

fun update_first :: "('a \<Rightarrow> bool) \<Rightarrow> ('a \<Rightarrow> 'a) \<Rightarrow> 'a list \<Rightarrow> 'a list" where
  "update_first P f [] = []"
| "update_first P f (x # xs) = (if P x then f x # xs else x # update_first P f xs)"

definition add_room :: "hotel \<Rightarrow> string \<Rightarrow> string \<Rightarrow> real \<Rightarrow> bool \<times> hotel" where
  "add_room h rn rt p =
     (case find_room h rn of
        Some r \<Rightarrow> (False, h)
      | None \<Rightarrow> (True, h\<lparr>rooms := rooms h @ [Room rn rt p]\<rparr>))"

definition set_type :: "string option \<Rightarrow> room \<Rightarrow> room" where
  "set_type rt r =
     (case rt of None \<Rightarrow> r
      | Some t \<Rightarrow> if nonblank (Some t) then r\<lparr>room_type := t\<rparr> else r)"

text \<open>\<^verbatim>\<open>float(price)\<close> on a string is the parameter \<open>pyfloat\<close>; \<open>None\<close> is its
  \<^verbatim>\<open>ValueError\<close>, which \<^verbatim>\<open>update_room\<close> swallows.\<close>

definition set_price :: "(string \<Rightarrow> real option) \<Rightarrow> string option \<Rightarrow> room \<Rightarrow> room" where
  "set_price pyfloat pr r =
     (case pr of None \<Rightarrow> r
      | Some p \<Rightarrow>
          if nonblank (Some p) then
            (case pyfloat p of Some v \<Rightarrow> r\<lparr>price := v\<rparr> | None \<Rightarrow> r)
          else r)"

definition update_room ::
  "(string \<Rightarrow> real option) \<Rightarrow> hotel \<Rightarrow> string \<Rightarrow> string option \<Rightarrow> string option \<Rightarrow> bool \<times> hotel" where
  "update_room pyfloat h rn rt pr =
     (case find_room h rn of
        None \<Rightarrow> (False, h)
      | Some r \<Rightarrow>
          (True, h\<lparr>rooms := update_first (\<lambda>r. number r = rn)
                               (\<lambda>r. set_price pyfloat pr (set_type rt r)) (rooms h)\<rparr>))"

text \<open>\<^verbatim>\<open>str(uuid4())[:8]\<close> is an input of the model: the argument \<open>new_id\<close> of the three
  operations that draw an identifier.\<close>

definition add_guest :: "string \<Rightarrow> hotel \<Rightarrow> string \<Rightarrow> string \<Rightarrow> string \<Rightarrow> string \<Rightarrow> string \<times> hotel" where
  "add_guest new_id h n p e a = (new_id, h\<lparr>guests := guests h @ [Guest new_id n p e a]\<rparr>)"

definition set_field :: "string option \<Rightarrow> (string \<Rightarrow> guest \<Rightarrow> guest) \<Rightarrow> guest \<Rightarrow> guest" where
  "set_field arg upd g =
     (case arg of None \<Rightarrow> g | Some v \<Rightarrow> if nonblank (Some v) then upd v g else g)"

definition update_guest ::
  "hotel \<Rightarrow> string \<Rightarrow> string option \<Rightarrow> string option \<Rightarrow> string option \<Rightarrow> string option \<Rightarrow> bool \<times> hotel" where
  "update_guest h gid n p e a =
     (case find_guest h gid of
        None \<Rightarrow> (False, h)
      | Some g \<Rightarrow>
          (True, h\<lparr>guests := update_first (\<lambda>g. guest_id g = gid)
               (\<lambda>g. set_field a (\<lambda>v g. g\<lparr>address := v\<rparr>)
                      (set_field e (\<lambda>v g. g\<lparr>email := v\<rparr>)
                        (set_field p (\<lambda>v g. g\<lparr>phone := v\<rparr>)
                          (set_field n (\<lambda>v g. g\<lparr>name := v\<rparr>) g))))
               (guests h)\<rparr>))"

section \<open>Booking life cycle\<close>

text \<open>
  \<^verbatim>\<open>datetime.strptime(s, "%Y-%m-%d").date()\<close> is the parameter \<open>strptime\<close>; \<open>None\<close> is
  its \<^verbatim>\<open>ValueError\<close>. Every operation returns its result together with the store after
  the call; an exception is the result \<open>Inl e\<close>.

  In \<^verbatim>\<open>create_booking\<close> the two not-found returns come before the \<^verbatim>\<open>try\<close>; inside it,
  both \<^verbatim>\<open>strptime\<close> failures and the range error are caught by the one \<^verbatim>\<open>except\<close>
  clause and raised again wrapped; the unavailable return is inside the \<^verbatim>\<open>try\<close> too.
\<close>

definition create_booking ::
  "(string \<Rightarrow> date option) \<Rightarrow> string \<Rightarrow> hotel \<Rightarrow> string \<Rightarrow> string \<Rightarrow> string \<Rightarrow> string
     \<Rightarrow> (value_error + string option) \<times> hotel" where
  "create_booking strptime new_id h gid rn ci co =
     (case find_guest h gid of
        None \<Rightarrow> (Inr None, h)
      | Some g \<Rightarrow>
     (case find_room h rn of
        None \<Rightarrow> (Inr None, h)
      | Some r \<Rightarrow>
     (case strptime ci of
        None \<Rightarrow> (Inl (InvalidDateFormat StrptimeError), h)
      | Some check_in_date \<Rightarrow>
     (case strptime co of
        None \<Rightarrow> (Inl (InvalidDateFormat StrptimeError), h)
      | Some check_out_date \<Rightarrow>
          if check_out_date \<le> check_in_date then
            (Inl (InvalidDateFormat CheckOutNotAfterCheckIn), h)
          else if \<not> is_room_available h rn check_in_date check_out_date None then
            (Inr None, h)
          else
            (Inr (Some new_id),
             h\<lparr>bookings := bookings h @ [Booking new_id gid rn check_in_date check_out_date]\<rparr>)))))"

text \<open>An argument of \<^verbatim>\<open>update_booking\<close> that is absent or blank keeps the stored date;
  \<open>None\<close> is the failure of \<^verbatim>\<open>strptime\<close> on a non-blank argument.\<close>

definition parse_or_keep :: "(string \<Rightarrow> date option) \<Rightarrow> string option \<Rightarrow> date \<Rightarrow> date option" where
  "parse_or_keep strptime arg cur =
     (case arg of None \<Rightarrow> Some cur
      | Some s \<Rightarrow> if nonblank (Some s) then strptime s else Some cur)"

definition update_booking ::
  "(string \<Rightarrow> date option) \<Rightarrow> hotel \<Rightarrow> string \<Rightarrow> string option \<Rightarrow> string option
     \<Rightarrow> (value_error + bool) \<times> hotel" where
  "update_booking strptime h bid ci co =
     (case find_booking h bid of
        None \<Rightarrow> (Inr False, h)
      | Some b \<Rightarrow>
     (case parse_or_keep strptime ci (check_in b) of
        None \<Rightarrow> (Inl InvalidCheckInFormat, h)
      | Some check_in_date \<Rightarrow>
     (case parse_or_keep strptime co (check_out b) of
        None \<Rightarrow> (Inl InvalidCheckOutFormat, h)
      | Some check_out_date \<Rightarrow>
          if check_out_date \<le> check_in_date then (Inl CheckOutNotAfterCheckIn, h)
          else if \<not> is_room_available h (room_number b) check_in_date check_out_date (Some bid)
          then (Inr False, h)
          else
            (Inr True,
             h\<lparr>bookings := update_first (\<lambda>b. booking_id b = bid)
                  (\<lambda>b. b\<lparr>check_in := check_in_date, check_out := check_out_date\<rparr>)
                  (bookings h)\<rparr>))))"

definition cancel_booking :: "hotel \<Rightarrow> string \<Rightarrow> bool \<times> hotel" where
  "cancel_booking h bid =
     (case find_booking h bid of
        None \<Rightarrow> (False, h)
      | Some b \<Rightarrow> (True, h\<lparr>bookings := filter (\<lambda>b. booking_id b \<noteq> bid) (bookings h)\<rparr>))"

section \<open>Billing\<close>

definition find_bill_for :: "hotel \<Rightarrow> string \<Rightarrow> bill option" where
  "find_bill_for h bkid = List.find (\<lambda>bl. bill_booking_id bl = bkid) (bills h)"

definition find_bill :: "hotel \<Rightarrow> string \<Rightarrow> bill option" where
  "find_bill h bid = List.find (\<lambda>bl. bill_id bl = bid) (bills h)"

text \<open>\<^verbatim>\<open>generate_bill\<close>: the booking is looked up first, then the bills are scanned for
  one of this booking, then the room is looked up.\<close>

definition generate_bill :: "string \<Rightarrow> hotel \<Rightarrow> string \<Rightarrow> bill option \<times> hotel" where
  "generate_bill new_id h bkid =
     (case find_booking h bkid of
        None \<Rightarrow> (None, h)
      | Some b \<Rightarrow>
     (case find_bill_for h bkid of
        Some bl \<Rightarrow> (Some bl, h)
      | None \<Rightarrow>
     (case find_room h (room_number b) of
        None \<Rightarrow> (None, h)
      | Some r \<Rightarrow>
          let days = check_out b - check_in b;
              amt = real_of_int days * price r;
              bl = Bill new_id bkid amt
          in (Some bl, h\<lparr>bills := bills h @ [bl]\<rparr>))))"

text \<open>\<^verbatim>\<open>datetime.datetime.now().date()\<close> is the argument \<open>today\<close>.\<close>

definition process_payment :: "date \<Rightarrow> hotel \<Rightarrow> string \<Rightarrow> real \<Rightarrow> bool \<times> hotel" where
  "process_payment today h bid amt =
     (case find_bill h bid of
        None \<Rightarrow> (False, h)
      | Some bl \<Rightarrow>
          if status bl = ''PAID'' then (False, h)
          else if amt < amount bl then (False, h)
          else
            (True,
             h\<lparr>bills := update_first (\<lambda>bl. bill_id bl = bid)
                  (\<lambda>bl. bl\<lparr>status := ''PAID'', payment_date := Some today\<rparr>) (bills h)\<rparr>))"

section \<open>Revenue report\<close>







section \<open>Sequences of manager operations\<close>

text \<open>The mutating methods of \<^verbatim>\<open>HotelManager\<close> with their arguments. The first argument
  of \<open>AddGuest\<close>, \<open>CreateBooking\<close> and \<open>GenerateBill\<close> is the identifier drawn by
  \<^verbatim>\<open>uuid4\<close>, the first argument of \<open>ProcessPayment\<close> is the current date.\<close>

datatype op =
    AddRoom string string real
  | UpdateRoom string "string option" "string option"
  | AddGuest string string string string string
  | UpdateGuest string "string option" "string option" "string option" "string option"
  | CreateBooking string string string string string
  | UpdateBooking string "string option" "string option"
  | CancelBooking string
  | GenerateBill string string
  | ProcessPayment date string real

text \<open>The store after one call, whatever the call returned or raised.\<close>

fun exec :: "(string \<Rightarrow> date option) \<Rightarrow> (string \<Rightarrow> real option) \<Rightarrow> op \<Rightarrow> hotel \<Rightarrow> hotel" where
  "exec strptime pyfloat (AddRoom rn rt p) h = snd (add_room h rn rt p)"
| "exec strptime pyfloat (UpdateRoom rn rt pr) h = snd (update_room pyfloat h rn rt pr)"
| "exec strptime pyfloat (AddGuest new_id n p e a) h = snd (add_guest new_id h n p e a)"
| "exec strptime pyfloat (UpdateGuest gid n p e a) h = snd (update_guest h gid n p e a)"
| "exec strptime pyfloat (CreateBooking new_id gid rn ci co) h =
     snd (create_booking strptime new_id h gid rn ci co)"
| "exec strptime pyfloat (UpdateBooking bid ci co) h = snd (update_booking strptime h bid ci co)"
| "exec strptime pyfloat (CancelBooking bid) h = snd (cancel_booking h bid)"
| "exec strptime pyfloat (GenerateBill new_id bkid) h = snd (generate_bill new_id h bkid)"
| "exec strptime pyfloat (ProcessPayment today bid amt) h = snd (process_payment today h bid amt)"

fun run :: "(string \<Rightarrow> date option) \<Rightarrow> (string \<Rightarrow> real option) \<Rightarrow> op list \<Rightarrow> hotel \<Rightarrow> hotel" where
  "run strptime pyfloat [] h = h"
| "run strptime pyfloat (x # xs) h = run strptime pyfloat xs (exec strptime pyfloat x h)"

text \<open>
  What is assumed of \<^verbatim>\<open>uuid4\<close>: the identifier drawn for a new booking is not the
  identifier of a booking in the store at that moment. Nothing is assumed of the
  identifiers drawn for guests and bills.
\<close>

fun fresh_for :: "hotel \<Rightarrow> op \<Rightarrow> bool" where
  "fresh_for h (CreateBooking new_id gid rn ci co) = (new_id \<notin> set (map booking_id (bookings h)))"
| "fresh_for h x = True"

fun ids_fresh :: "(string \<Rightarrow> date option) \<Rightarrow> (string \<Rightarrow> real option) \<Rightarrow> op list \<Rightarrow> hotel \<Rightarrow> bool" where
  "ids_fresh strptime pyfloat [] h = True"
| "ids_fresh strptime pyfloat (x # xs) h =
     (fresh_for h x \<and> ids_fresh strptime pyfloat xs (exec strptime pyfloat x h))"

section \<open>Stand-ins for the two library parsers\<close>

text \<open>
  The theorems below hold for every \<open>strptime\<close> and every \<open>pyfloat\<close>. To run the
  operations on the examples of the specification, the parameters are instantiated
  with two parsers that cover the inputs of the examples: \<open>strptime_padded\<close> reads
  the ten-character form \<^verbatim>\<open>YYYY-MM-DD\<close> of a valid date of the years 1 to 9999 and
  gives its ordinal as \<^verbatim>\<open>datetime.date.toordinal\<close> computes it; \<open>float_of_digits\<close>
  reads a non-empty string of decimal digits. (Python's own parsers accept more, for
  instance a month without its leading zero.)
\<close>

definition digit :: "char \<Rightarrow> int option" where
  "digit c = (let n = (of_char c :: nat) in if 48 \<le> n \<and> n \<le> 57 then Some (int n - 48) else None)"

fun number_of :: "int \<Rightarrow> string \<Rightarrow> int option" where
  "number_of acc [] = Some acc"
| "number_of acc (c # cs) =
     (case digit c of None \<Rightarrow> None | Some d \<Rightarrow> number_of (10 * acc + d) cs)"

definition is_leap :: "int \<Rightarrow> bool" where
  "is_leap y = (y mod 4 = 0 \<and> (y mod 100 \<noteq> 0 \<or> y mod 400 = 0))"

definition days_in_month :: "int \<Rightarrow> int \<Rightarrow> int" where
  "days_in_month y m =
     (if m = 2 then (if is_leap y then 29 else 28)
      else if m = 4 \<or> m = 6 \<or> m = 9 \<or> m = 11 then 30 else 31)"

definition days_before_year :: "int \<Rightarrow> int" where
  "days_before_year y = (y - 1) * 365 + (y - 1) div 4 - (y - 1) div 100 + (y - 1) div 400"

definition days_before_month :: "int \<Rightarrow> int \<Rightarrow> int" where
  "days_before_month y m =
     [0, 31, 59, 90, 120, 151, 181, 212, 243, 273, 304, 334] ! nat (m - 1)
       + (if m > 2 \<and> is_leap y then 1 else 0)"

definition ymd2ord :: "int \<Rightarrow> int \<Rightarrow> int \<Rightarrow> date" where
  "ymd2ord y m d = days_before_year y + days_before_month y m + d"

definition strptime_padded :: "string \<Rightarrow> date option" where
  "strptime_padded s =
     (if length s = 10 \<and> s ! 4 = CHR ''-'' \<and> s ! 7 = CHR ''-'' then
        (case number_of 0 (take 4 s) of None \<Rightarrow> None | Some y \<Rightarrow>
        (case number_of 0 (take 2 (drop 5 s)) of None \<Rightarrow> None | Some m \<Rightarrow>
        (case number_of 0 (drop 8 s) of None \<Rightarrow> None | Some d \<Rightarrow>
           if 1 \<le> y \<and> 1 \<le> m \<and> m \<le> 12 \<and> 1 \<le> d \<and> d \<le> days_in_month y m
           then Some (ymd2ord y m d) else None)))
      else None)"

definition float_of_digits :: "string \<Rightarrow> real option" where
  "float_of_digits s = (if s = [] then None else map_option real_of_int (number_of 0 s))"

section \<open>The specification's wording, for comparison\<close>

text \<open>Section 4.2 as written: scan the bookings of the room, leave out the one whose
  identifier is \<open>exclude_booking_id\<close> if that is given, and look for an overlap.\<close>

definition spec_is_available :: "booking list \<Rightarrow> string \<Rightarrow> date \<Rightarrow> date \<Rightarrow> string option \<Rightarrow> bool" where
  "spec_is_available bs rn ci co ex =
     (\<not> list_ex (\<lambda>b. room_number b = rn \<and> Some (booking_id b) \<noteq> ex
                      \<and> ci < check_out b \<and> co > check_in b) bs)"


section \<open>Invariants of the store\<close>

text \<open>No two bookings at different positions of the list are on the same room with
  overlapping half-open stays.\<close>

definition no_double_booking :: "booking list \<Rightarrow> bool" where
  "no_double_booking bs =
     (\<forall>i < length bs. \<forall>j < length bs.
        i \<noteq> j \<and> room_number (bs ! i) = room_number (bs ! j) \<longrightarrow>
        \<not> (check_in (bs ! i) < check_out (bs ! j) \<and> check_out (bs ! i) > check_in (bs ! j)))"


definition bill_consistent :: "bill \<Rightarrow> bool" where
  "bill_consistent bl = (status bl = ''PAID'' \<longleftrightarrow> payment_date bl \<noteq> None)"

section \<open>Example stores\<close>

text \<open>Two rooms at 100 a night and one guest; room 101 is booked from 2024-06-01 to
  2024-06-05 and room 102 from 2024-06-01 to 2024-06-04 (three nights). Ordinals:
  2024-06-01 is 739038, 2024-06-30 is 739067.\<close>

definition setup_ops :: "op list" where
  "setup_ops =
     [AddRoom ''101'' ''Single'' 100, AddRoom ''102'' ''Double'' 100,
      AddGuest ''g1'' ''Ann'' ''555'' ''ann@example.org'' ''1 Main St'',
      CreateBooking ''b1'' ''g1'' ''101'' ''2024-06-01'' ''2024-06-05'',
      CreateBooking ''b2'' ''g1'' ''102'' ''2024-06-01'' ''2024-06-04'']"

definition sample_hotel :: hotel where
  "sample_hotel =
     \<lparr>rooms = [Room ''101'' ''Single'' 100, Room ''102'' ''Double'' 100],
      guests = [Guest ''g1'' ''Ann'' ''555'' ''ann@example.org'' ''1 Main St''],
      bookings = [Booking ''b1'' ''g1'' ''101'' 739038 739042,
                  Booking ''b2'' ''g1'' ''102'' 739038 739041],
      bills = []\<rparr>"

text \<open>The same store once the bill of booking b2 is generated.\<close>

definition billed_hotel :: hotel where
  "billed_hotel = sample_hotel\<lparr>bills := [Bill ''k2'' ''b2'' 300]\<rparr>"


text \<open>A run in which \<^verbatim>\<open>uuid4\<close> gives the second booking the identifier of the first,
  followed by an update under that identifier.\<close>

definition repeated_id_ops :: "op list" where
  "repeated_id_ops =
     [AddRoom ''101'' ''Single'' 100,
      AddGuest ''g1'' ''Ann'' ''555'' ''ann@example.org'' ''1 Main St'',
      CreateBooking ''b1'' ''g1'' ''101'' ''2024-06-01'' ''2024-06-05'',
      CreateBooking ''b1'' ''g1'' ''101'' ''2024-06-20'' ''2024-06-22'',
      UpdateBooking ''b1'' (Some ''2024-06-20'') (Some ''2024-06-22'')]"


text \<open>Three bills: k1 (400) paid on 2024-06-15, k2 (300) paid on 2024-07-01, k5 (200)
  unpaid for a stay from 2024-06-20 to 2024-06-22.\<close>

definition report_ops :: "op list" where
  "report_ops = setup_ops @
     [CreateBooking ''b5'' ''g1'' ''102'' ''2024-06-20'' ''2024-06-22'',
      GenerateBill ''k1'' ''b1'', GenerateBill ''k2'' ''b2'', GenerateBill ''k5'' ''b5'',
      ProcessPayment 739052 ''k1'' 400, ProcessPayment 739068 ''k2'' 300]"

section \<open>Auxiliary facts\<close>

lemmas store_defs = empty_hotel_def Room_def Guest_def Booking_def Bill_def
  find_room_def find_guest_def find_booking_def find_bill_def find_bill_for_def
  is_room_available_def add_room_def update_room_def set_type_def set_price_def
  add_guest_def update_guest_def set_field_def create_booking_def update_booking_def
  parse_or_keep_def cancel_booking_def generate_bill_def process_payment_def Let_def

lemmas parser_defs = strptime_padded_def float_of_digits_def digit_def ymd2ord_def
  days_before_year_def days_before_month_def days_in_month_def is_leap_def

subsection \<open>Searching and updating lists\<close>




lemma find_update_first:
  "(\<And>y. P (f y) = P y) \<Longrightarrow> List.find P (update_first P f xs) = map_option f (List.find P xs)"
  by (induction xs) simp_all


lemma set_update_first: "set (update_first P f xs) \<subseteq> set xs \<union> f ` {x \<in> set xs. P x}"
  by (induction xs) auto

lemma update_first_list_update:
  "List.find P xs = Some x \<Longrightarrow> \<exists>i < length xs. xs ! i = x \<and> update_first P f xs = xs[i := f x]"
proof (induction xs)
  case Nil
  then show ?case by simp
next
  case (Cons a xs)
  show ?case
  proof (cases "P a")
    case True
    with Cons.prems have "a = x" by simp
    with True show ?thesis by (intro exI [of _ 0]) simp
  next
    case False
    with Cons.prems have "List.find P xs = Some x" by simp
    then obtain i where "i < length xs" "xs ! i = x" "update_first P f xs = xs[i := f x]"
      using Cons.IH by blast
    have "Suc i < length (a # xs)" using \<open>i < length xs\<close> by simp
    moreover have "(a # xs) ! Suc i = x" using \<open>xs ! i = x\<close> by simp
    moreover have "update_first P f (a # xs) = (a # xs)[Suc i := f x]"
      using False \<open>update_first P f xs = xs[i := f x]\<close> by simp
    ultimately show ?thesis by blast
  qed
qed

lemma run_append:
  "run strptime pyfloat (xs @ ys) h = run strptime pyfloat ys (run strptime pyfloat xs h)"
  by (induction xs arbitrary: h) simp_all

subsection \<open>The examples, evaluated\<close>

lemma strptime_examples:
  "strptime_padded ''2024-06-01'' = Some 739038"
  "strptime_padded ''2024-06-03'' = Some 739040"
  "strptime_padded ''2024-06-04'' = Some 739041"
  "strptime_padded ''2024-06-05'' = Some 739042"
  "strptime_padded ''2024-06-08'' = Some 739045"
  "strptime_padded ''2024-06-20'' = Some 739057"
  "strptime_padded ''2024-06-22'' = Some 739059"
  "strptime_padded ''2024-06-30'' = Some 739067"
  "strptime_padded ''2024-05-10'' = Some 739016"
  "strptime_padded ''2024-05-09'' = Some 739015"
  "strptime_padded ''junk'' = None"
  by (simp_all add: parser_defs)


lemma run_setup_ops: "run strptime_padded float_of_digits setup_ops empty_hotel = sample_hotel"
  by (simp add: setup_ops_def sample_hotel_def store_defs strptime_examples)




lemma run_report_ops:
  "run strptime_padded float_of_digits report_ops empty_hotel =
     sample_hotel\<lparr>bookings := [Booking ''b1'' ''g1'' ''101'' 739038 739042,
                  Booking ''b2'' ''g1'' ''102'' 739038 739041,
                  Booking ''b5'' ''g1'' ''102'' 739057 739059],
        bills := [(Bill ''k1'' ''b1'' 400)\<lparr>status := ''PAID'', payment_date := Some 739052\<rparr>,
                  (Bill ''k2'' ''b2'' 300)\<lparr>status := ''PAID'', payment_date := Some 739068\<rparr>,
                  Bill ''k5'' ''b5'' 200]\<rparr>"
  by (simp add: report_ops_def run_append run_setup_ops)
     (simp add: sample_hotel_def store_defs strptime_examples)

section \<open>No double booking\<close>

lemma room_available_in_iff:
  "room_available_in bs rn ci co ex \<longleftrightarrow>
     \<not> (\<exists>b \<in> set bs. room_number b = rn \<and> \<not> (truthy ex \<and> Some (booking_id b) = ex)
            \<and> ci < check_out b \<and> co > check_in b)"
  by (induction bs) auto









text \<open>The assumption on identifiers cannot be dropped. If a second booking is given the
  identifier of a stored one, \<^verbatim>\<open>update_booking\<close> under that identifier changes the first
  of the two and leaves both out of its availability scan, and the two stays can then
  overlap.\<close>

lemma repeated_id_allows_overlap:
  "\<not> ids_fresh strptime_padded float_of_digits repeated_id_ops empty_hotel
   \<and> bookings (run strptime_padded float_of_digits repeated_id_ops empty_hotel)
       = [Booking ''b1'' ''g1'' ''101'' 739057 739059, Booking ''b1'' ''g1'' ''101'' 739057 739059]
   \<and> \<not> no_double_booking (bookings (run strptime_padded float_of_digits repeated_id_ops empty_hotel))"
proof -
  have run: "bookings (run strptime_padded float_of_digits repeated_id_ops empty_hotel)
       = [Booking ''b1'' ''g1'' ''101'' 739057 739059, Booking ''b1'' ''g1'' ''101'' 739057 739059]"
    by (simp add: repeated_id_ops_def store_defs strptime_examples is_space_def)
  have "\<not> ids_fresh strptime_padded float_of_digits repeated_id_ops empty_hotel"
    by (simp add: repeated_id_ops_def store_defs strptime_examples)
  moreover have "\<not> no_double_booking
      [Booking ''b1'' ''g1'' ''101'' 739057 739059, Booking ''b1'' ''g1'' ''101'' 739057 739059]"
  proof
    assume "no_double_booking
      [Booking ''b1'' ''g1'' ''101'' 739057 739059, Booking ''b1'' ''g1'' ''101'' 739057 739059]"
    from this [unfolded no_double_booking_def, rule_format, of 0 1]
    show False by (simp add: Booking_def)
  qed
  ultimately show ?thesis using run by simp
qed

section \<open>The availability check as an overlap scan\<close>

text \<open>
  Claim C2, as amended. \<^verbatim>\<open>is_room_available\<close> answers \<open>False\<close> exactly when some stored
  booking on the room overlaps the requested half-open range, where the bookings left
  out of the scan are those whose identifier equals a given, non-empty
  \<open>exclude_booking_id\<close> (an empty string excludes nothing, as \<^verbatim>\<open>None\<close> does). In
  particular, a range that starts at or after the check-out of every booking on the
  room, such as a back-to-back one, is reported available.
\<close>

theorem availability_is_overlap_scan:
  "(is_room_available h rn ci co ex \<longleftrightarrow>
      \<not> (\<exists>b \<in> set (bookings h). room_number b = rn
             \<and> \<not> (ex = Some (booking_id b) \<and> booking_id b \<noteq> [])
             \<and> ci < check_out b \<and> co > check_in b))
   \<and> ((\<forall>b \<in> set (bookings h). room_number b = rn \<longrightarrow> check_out b \<le> ci)
         \<longrightarrow> is_room_available h rn ci co ex)"
proof -
  have "truthy ex \<and> Some (booking_id b) = ex \<longleftrightarrow> ex = Some (booking_id b) \<and> booking_id b \<noteq> []"
    for b :: booking
    by (cases ex) auto
  then have scan: "is_room_available h rn ci co ex \<longleftrightarrow>
      \<not> (\<exists>b \<in> set (bookings h). room_number b = rn
             \<and> \<not> (ex = Some (booking_id b) \<and> booking_id b \<noteq> [])
             \<and> ci < check_out b \<and> co > check_in b)"
    by (simp add: is_room_available_def room_available_in_iff)
  have "is_room_available h rn ci co ex"
    if "\<forall>b \<in> set (bookings h). room_number b = rn \<longrightarrow> check_out b \<le> ci"
    using that unfolding scan by fastforce
  with scan show ?thesis by blast
qed

text \<open>The example of the specification: room 101 is booked from 2024-06-01 to
  2024-06-05; the range from 2024-06-05 to 2024-06-08 is available, the range from
  2024-06-04 to 2024-06-08 is not, unless the scan leaves booking b1 out.\<close>

theorem availability_is_overlap_scan_witness:
  "is_room_available sample_hotel ''101'' 739042 739045 None
   \<and> \<not> is_room_available sample_hotel ''101'' 739041 739045 None
   \<and> is_room_available sample_hotel ''101'' 739041 739045 (Some ''b1'')"
  using availability_is_overlap_scan [of sample_hotel "''101''" 739042 739045 None]
    availability_is_overlap_scan [of sample_hotel "''101''" 739041 739045 None]
    availability_is_overlap_scan [of sample_hotel "''101''" 739041 739045 "Some ''b1''"]
  by (simp add: sample_hotel_def Booking_def)

text \<open>The claim as stated fails for the empty identifier: asked to leave out the
  booking whose identifier is the empty string, the code does not leave it out and
  reports the room taken, where the scan of the specification reports it free.\<close>

theorem exclude_empty_id_counterexample:
  "\<not> is_room_available
        \<lparr>rooms = [], guests = [],
         bookings = [Booking [] ''g1'' ''101'' 739038 739042], bills = []\<rparr>
        ''101'' 739039 739041 (Some [])
   \<and> spec_is_available [Booking [] ''g1'' ''101'' 739038 739042] ''101'' 739039 739041 (Some [])"
  by (simp add: is_room_available_def spec_is_available_def Booking_def)

section \<open>Payment settlement\<close>

text \<open>
  Claim C3. For the bill \<open>bl\<close> that \<^verbatim>\<open>process_payment\<close> finds under \<open>bill_id\<close>: if the
  amount offered is below \<open>amount bl\<close>, the call returns \<open>False\<close> and the store is
  unchanged (so an unpaid bill keeps status UNPAID and its null payment date); if the
  bill is UNPAID and the amount is at least \<open>amount bl\<close>, the call returns \<open>True\<close> and
  afterwards the bill has status PAID and the current date as payment date; and any
  later call for the same \<open>bill_id\<close>, whatever the amount and the day, returns \<open>False\<close>
  and changes nothing.
\<close>

theorem payment_settlement:
  "find_bill h bid = Some bl \<Longrightarrow>
     (amt < amount bl \<longrightarrow> process_payment today h bid amt = (False, h))
   \<and> (status bl = ''UNPAID'' \<and> amount bl \<le> amt \<longrightarrow>
        fst (process_payment today h bid amt) = True
        \<and> find_bill (snd (process_payment today h bid amt)) bid
            = Some (bl\<lparr>status := ''PAID'', payment_date := Some today\<rparr>)
        \<and> process_payment today' (snd (process_payment today h bid amt)) bid amt'
            = (False, snd (process_payment today h bid amt)))"
  by (simp add: process_payment_def find_bill_def find_update_first)

theorem payment_settlement_witness:
  "find_bill billed_hotel ''k2'' = Some (Bill ''k2'' ''b2'' 300)
   \<and> process_payment 739052 billed_hotel ''k2'' 299 = (False, billed_hotel)
   \<and> process_payment 739052 billed_hotel ''k2'' 350
       = (True, billed_hotel\<lparr>bills :=
            [(Bill ''k2'' ''b2'' 300)\<lparr>status := ''PAID'', payment_date := Some 739052\<rparr>]\<rparr>)
   \<and> process_payment 739053 (snd (process_payment 739052 billed_hotel ''k2'' 350)) ''k2'' 350
       = (False, billed_hotel\<lparr>bills :=
            [(Bill ''k2'' ''b2'' 300)\<lparr>status := ''PAID'', payment_date := Some 739052\<rparr>]\<rparr>)"
  using payment_settlement [of billed_hotel "''k2''" "Bill ''k2'' ''b2'' 300" 299 739052 739053 350]
    payment_settlement [of billed_hotel "''k2''" "Bill ''k2'' ''b2'' 300" 350 739052 739053 350]
  by (simp add: billed_hotel_def sample_hotel_def find_bill_def Bill_def process_payment_def)

section \<open>Bill amounts\<close>





section \<open>Idempotence of bill generation\<close>




section \<open>Reversed date range\<close>

text \<open>
  Claim C6. When guest and room exist and both dates parse but the check-out is not
  strictly after the check-in, \<^verbatim>\<open>create_booking\<close> raises: the result is the
  \<^verbatim>\<open>ValueError\<close> of the range check as re-raised by the \<^verbatim>\<open>except\<close> clause (an error, not
  the declined result \<^verbatim>\<open>None\<close>), and the store is unchanged, so no booking is added.
\<close>

theorem reversed_range_rejected:
  "find_guest h gid = Some g \<Longrightarrow> find_room h rn = Some r \<Longrightarrow>
   strptime ci = Some d1 \<Longrightarrow> strptime co = Some d2 \<Longrightarrow> d2 \<le> d1 \<Longrightarrow>
     create_booking strptime new_id h gid rn ci co
       = (Inl (InvalidDateFormat CheckOutNotAfterCheckIn), h)"
  by (simp add: create_booking_def)

theorem reversed_range_rejected_witness:
  "find_guest sample_hotel ''g1'' = Some (Guest ''g1'' ''Ann'' ''555'' ''ann@example.org'' ''1 Main St'')
   \<and> find_room sample_hotel ''102'' = Some (Room ''102'' ''Double'' 100)
   \<and> strptime_padded ''2024-05-10'' = Some 739016
   \<and> strptime_padded ''2024-05-09'' = Some 739015
   \<and> create_booking strptime_padded ''b9'' sample_hotel ''g1'' ''102'' ''2024-05-10'' ''2024-05-09''
       = (Inl (InvalidDateFormat CheckOutNotAfterCheckIn), sample_hotel)"
  using reversed_range_rejected [of sample_hotel "''g1''"
      "Guest ''g1'' ''Ann'' ''555'' ''ann@example.org'' ''1 Main St''" "''102''"
      "Room ''102'' ''Double'' 100" strptime_padded "''2024-05-10''" 739016
      "''2024-05-09''" 739015 "''b9''"]
  by (simp add: sample_hotel_def find_guest_def find_room_def Guest_def Room_def strptime_examples)

section \<open>Revenue report\<close>







section \<open>Status and payment date of a bill\<close>

lemma exec_bills_consistent:
  assumes "\<forall>bl \<in> set (bills h). bill_consistent bl"
  shows "\<forall>bl \<in> set (bills (exec strptime pyfloat x h)). bill_consistent bl"
proof (cases x)
  case (ProcessPayment today bid amt)
  have "set (update_first (\<lambda>bl. bill_id bl = bid)
              (\<lambda>bl. bl\<lparr>status := ''PAID'', payment_date := Some today\<rparr>) (bills h))
        \<subseteq> set (bills h) \<union> (\<lambda>bl. bl\<lparr>status := ''PAID'', payment_date := Some today\<rparr>)
                               ` {bl \<in> set (bills h). bill_id bl = bid}"
    by (rule set_update_first)
  with assms ProcessPayment show ?thesis
    by (auto simp: process_payment_def bill_consistent_def split: option.splits)
next
  case (GenerateBill new_id bkid)
  with assms show ?thesis
    by (auto simp: generate_bill_def Let_def Bill_def bill_consistent_def split: option.splits)
qed (use assms in \<open>auto simp: add_room_def update_room_def add_guest_def update_guest_def
        create_booking_def update_booking_def cancel_booking_def split: option.splits\<close>)

lemma run_bills_consistent:
  "\<forall>bl \<in> set (bills h). bill_consistent bl \<Longrightarrow>
   \<forall>bl \<in> set (bills (run strptime pyfloat xs h)). bill_consistent bl"
proof (induction xs arbitrary: h)
  case Nil
  then show ?case by simp
next
  case (Cons x xs)
  from Cons.prems have "\<forall>bl \<in> set (bills (exec strptime pyfloat x h)). bill_consistent bl"
    by (rule exec_bills_consistent)
  then show ?case using Cons.IH by simp
qed

lemma update_first_length: "length (update_first P f xs) = length xs"
  by (induction xs) simp_all

lemma exec_bills_length: "length (bills h) \<le> length (bills (exec strptime pyfloat x h))"
  by (cases x)
     (auto simp: add_room_def update_room_def add_guest_def update_guest_def create_booking_def
        update_booking_def cancel_booking_def generate_bill_def process_payment_def Let_def
        update_first_length split: option.splits)

lemma process_payment_paid_kept:
  assumes cons: "\<forall>bl \<in> set (bills h). bill_consistent bl"
    and paid: "payment_date (bills h ! i) \<noteq> None"
  shows "bills (snd (process_payment today h bid amt)) ! i = bills h ! i"
proof (cases "find_bill h bid")
  case None
  then show ?thesis by (simp add: process_payment_def)
next
  case (Some bl)
  let ?f = "\<lambda>bl::bill. bl\<lparr>status := ''PAID'', payment_date := Some today\<rparr>"
  from Some have "List.find (\<lambda>bl. bill_id bl = bid) (bills h) = Some bl"
    by (simp add: find_bill_def)
  from update_first_list_update [OF this, of ?f]
  obtain k where k: "k < length (bills h)" "bills h ! k = bl"
    and upd: "update_first (\<lambda>bl. bill_id bl = bid) ?f (bills h) = (bills h)[k := ?f bl]"
    by blast
  have "bl \<in> set (bills h)" using k nth_mem by blast
  with cons have "status bl = ''PAID'' \<longleftrightarrow> payment_date bl \<noteq> None"
    by (simp add: bill_consistent_def)
  moreover have "payment_date bl \<noteq> None" if "k = i"
    using paid k(2) unfolding that by blast
  ultimately have ne: "status bl \<noteq> ''PAID'' \<Longrightarrow> k \<noteq> i" by blast
  show ?thesis
  proof (cases "status bl = ''PAID'' \<or> amt < amount bl")
    case True
    with Some show ?thesis by (auto simp: process_payment_def)
  next
    case False
    then have "snd (process_payment today h bid amt) = h\<lparr>bills := (bills h)[k := ?f bl]\<rparr>"
      using Some upd by (simp add: process_payment_def)
    moreover have "k \<noteq> i" using False ne by blast
    ultimately show ?thesis by simp
  qed
qed

lemma exec_paid_kept:
  assumes "\<forall>bl \<in> set (bills h). bill_consistent bl"
    and "i < length (bills h)" and "payment_date (bills h ! i) \<noteq> None"
  shows "bills (exec strptime pyfloat x h) ! i = bills h ! i"
proof (cases x)
  case (ProcessPayment today bid amt)
  with assms show ?thesis by (simp add: process_payment_paid_kept)
next
  case (GenerateBill new_id bkid)
  with assms(2) show ?thesis
    by (auto simp: generate_bill_def Let_def nth_append split: option.splits)
qed (auto simp: add_room_def update_room_def add_guest_def update_guest_def
        create_booking_def update_booking_def cancel_booking_def split: option.splits)

lemma run_paid_kept:
  "\<forall>bl \<in> set (bills h). bill_consistent bl \<Longrightarrow> i < length (bills h) \<Longrightarrow>
   payment_date (bills h ! i) \<noteq> None \<Longrightarrow>
   bills (run strptime pyfloat ys h) ! i = bills h ! i"
proof (induction ys arbitrary: h)
  case Nil
  then show ?case by simp
next
  case (Cons y ys)
  let ?h' = "exec strptime pyfloat y h"
  have same: "bills ?h' ! i = bills h ! i"
    using Cons.prems by (rule exec_paid_kept)
  have "\<forall>bl \<in> set (bills ?h'). bill_consistent bl"
    using Cons.prems(1) by (rule exec_bills_consistent)
  moreover have "i < length (bills ?h')"
    using Cons.prems(2) exec_bills_length [of h strptime pyfloat y] by simp
  moreover have "payment_date (bills ?h' ! i) \<noteq> None"
    using Cons.prems(3) same by simp
  ultimately have "bills (run strptime pyfloat ys ?h') ! i = bills ?h' ! i"
    by (rule Cons.IH)
  with same show ?case by simp
qed

text \<open>
  Claim C8. In every store reached from the empty store by a sequence of manager
  operations, each bill has status PAID if and only if its payment date is not null.
  Moreover a bill of such a store whose payment date is set is left as it is by every
  further sequence of operations (the date is set once), and a bill that
  \<^verbatim>\<open>generate_bill\<close> creates is UNPAID with a null payment date.
\<close>

theorem paid_iff_payment_date:
  "(\<forall>bl \<in> set (bills (run strptime pyfloat xs empty_hotel)).
      status bl = ''PAID'' \<longleftrightarrow> payment_date bl \<noteq> None)
   \<and> (\<forall>i < length (bills (run strptime pyfloat xs empty_hotel)).
        payment_date (bills (run strptime pyfloat xs empty_hotel) ! i) \<noteq> None \<longrightarrow>
        bills (run strptime pyfloat ys (run strptime pyfloat xs empty_hotel)) ! i
          = bills (run strptime pyfloat xs empty_hotel) ! i)
   \<and> (find_bill_for h bkid = None \<and> fst (generate_bill new_id h bkid) = Some bl \<longrightarrow>
        status bl = ''UNPAID'' \<and> payment_date bl = None)"
proof -
  have cons: "\<forall>bl \<in> set (bills (run strptime pyfloat xs empty_hotel)). bill_consistent bl"
    using run_bills_consistent [of empty_hotel strptime pyfloat xs]
    by (simp add: empty_hotel_def)
  then have first: "\<forall>bl \<in> set (bills (run strptime pyfloat xs empty_hotel)).
      status bl = ''PAID'' \<longleftrightarrow> payment_date bl \<noteq> None"
    by (simp add: bill_consistent_def)
  have second: "\<forall>i < length (bills (run strptime pyfloat xs empty_hotel)).
        payment_date (bills (run strptime pyfloat xs empty_hotel) ! i) \<noteq> None \<longrightarrow>
        bills (run strptime pyfloat ys (run strptime pyfloat xs empty_hotel)) ! i
          = bills (run strptime pyfloat xs empty_hotel) ! i"
    using run_paid_kept [OF cons] by blast
  have third: "find_bill_for h bkid = None \<and> fst (generate_bill new_id h bkid) = Some bl \<longrightarrow>
        status bl = ''UNPAID'' \<and> payment_date bl = None"
    by (auto simp: generate_bill_def Let_def Bill_def split: option.splits)
  from first second third show ?thesis by blast
qed

text \<open>The example: two paid bills and one unpaid bill; a further payment attempt on the
  paid bill k1 and a payment of k5 leave k1 as it was.\<close>

theorem paid_iff_payment_date_witness:
  "bills (run strptime_padded float_of_digits report_ops empty_hotel)
     = [(Bill ''k1'' ''b1'' 400)\<lparr>status := ''PAID'', payment_date := Some 739052\<rparr>,
        (Bill ''k2'' ''b2'' 300)\<lparr>status := ''PAID'', payment_date := Some 739068\<rparr>,
        Bill ''k5'' ''b5'' 200]
   \<and> list_all bill_consistent (bills (run strptime_padded float_of_digits report_ops empty_hotel))
   \<and> bills (run strptime_padded float_of_digits
              [ProcessPayment 739070 ''k1'' 500, ProcessPayment 739070 ''k5'' 200]
              (run strptime_padded float_of_digits report_ops empty_hotel)) ! 0
       = (Bill ''k1'' ''b1'' 400)\<lparr>status := ''PAID'', payment_date := Some 739052\<rparr>
   \<and> find_bill_for sample_hotel ''b2'' = None
   \<and> fst (generate_bill ''k2'' sample_hotel ''b2'')
       = Some \<lparr>bill_id = ''k2'', bill_booking_id = ''b2'', amount = 300,
               status = ''UNPAID'', payment_date = None\<rparr>"
  using paid_iff_payment_date [of strptime_padded float_of_digits report_ops
      "[ProcessPayment 739070 ''k1'' 500, ProcessPayment 739070 ''k5'' 200]"
      sample_hotel "''b2''" "''k2''" "Bill ''k2'' ''b2'' 300"]
  by (simp add: run_report_ops) (simp add: sample_hotel_def store_defs bill_consistent_def)

section \<open>Failure of \<open>create_booking\<close> leaves the store alone\<close>

text \<open>
  Claim C9. \<^verbatim>\<open>create_booking\<close> does not return a booking identifier exactly when the
  guest is not found, the room is not found, a date does not parse, the check-out is
  not after the check-in, or the room is not available; in all these cases (the
  returns of \<^verbatim>\<open>None\<close> and the raised errors alike) the store after the call is the
  store before it. When an identifier is returned it is the new one, and the store
  differs only by the new booking appended to the bookings.
\<close>

theorem create_booking_atomic:
  "((\<forall>bid. fst (create_booking strptime new_id h gid rn ci co) \<noteq> Inr (Some bid)) \<longleftrightarrow>
       find_guest h gid = None \<or> find_room h rn = None
       \<or> strptime ci = None \<or> strptime co = None
       \<or> (\<exists>d1 d2. strptime ci = Some d1 \<and> strptime co = Some d2 \<and>
             (d2 \<le> d1 \<or> \<not> is_room_available h rn d1 d2 None)))
   \<and> ((\<forall>bid. fst (create_booking strptime new_id h gid rn ci co) \<noteq> Inr (Some bid))
       \<longrightarrow> snd (create_booking strptime new_id h gid rn ci co) = h)
   \<and> (\<forall>bid. fst (create_booking strptime new_id h gid rn ci co) = Inr (Some bid) \<longrightarrow>
         bid = new_id
         \<and> (\<exists>d1 d2. strptime ci = Some d1 \<and> strptime co = Some d2
              \<and> snd (create_booking strptime new_id h gid rn ci co)
                  = h\<lparr>bookings := bookings h @ [Booking new_id gid rn d1 d2]\<rparr>))"
  by (auto simp: create_booking_def split: option.splits)

text \<open>One call for each way of failing, and a successful one.\<close>

theorem create_booking_atomic_witness:
  "create_booking strptime_padded ''b9'' sample_hotel ''g7'' ''101'' ''2024-06-05'' ''2024-06-08''
     = (Inr None, sample_hotel)
   \<and> create_booking strptime_padded ''b9'' sample_hotel ''g1'' ''999'' ''2024-06-05'' ''2024-06-08''
     = (Inr None, sample_hotel)
   \<and> create_booking strptime_padded ''b9'' sample_hotel ''g1'' ''101'' ''junk'' ''2024-06-08''
     = (Inl (InvalidDateFormat StrptimeError), sample_hotel)
   \<and> create_booking strptime_padded ''b9'' sample_hotel ''g1'' ''101'' ''2024-06-08'' ''2024-06-05''
     = (Inl (InvalidDateFormat CheckOutNotAfterCheckIn), sample_hotel)
   \<and> create_booking strptime_padded ''b9'' sample_hotel ''g1'' ''101'' ''2024-06-04'' ''2024-06-08''
     = (Inr None, sample_hotel)
   \<and> create_booking strptime_padded ''b9'' sample_hotel ''g1'' ''101'' ''2024-06-05'' ''2024-06-08''
     = (Inr (Some ''b9''),
        sample_hotel\<lparr>bookings := bookings sample_hotel @ [Booking ''b9'' ''g1'' ''101'' 739042 739045]\<rparr>)"
  using create_booking_atomic [of strptime_padded "''b9''" sample_hotel "''g7''" "''101''"
      "''2024-06-05''" "''2024-06-08''"]
    create_booking_atomic [of strptime_padded "''b9''" sample_hotel "''g1''" "''101''"
      "''2024-06-04''" "''2024-06-08''"]
    create_booking_atomic [of strptime_padded "''b9''" sample_hotel "''g1''" "''101''"
      "''2024-06-05''" "''2024-06-08''"]
  by (simp add: sample_hotel_def store_defs strptime_examples)

section \<open>Availability does not read \<open>is_active\<close>\<close>

lemma room_available_in_flags:
  "room_available_in (map (\<lambda>b. b\<lparr>is_active := f b\<rparr>) bs) rn ci co ex
     = room_available_in bs rn ci co ex"
  by (induction bs) simp_all

text \<open>
  Claim C10. The answer of \<^verbatim>\<open>is_room_available\<close> does not depend on the \<open>is_active\<close>
  fields of the stored bookings: rewriting these flags in any way (\<open>f\<close> chooses the new
  flag of each booking) leaves the answer as it is. So a booking with
  \<open>is_active = False\<close> blocks its room exactly as an active one does.
\<close>

theorem availability_ignores_is_active:
  "is_room_available (h\<lparr>bookings := map (\<lambda>b. b\<lparr>is_active := f b\<rparr>) (bookings h)\<rparr>) rn ci co ex
     = is_room_available h rn ci co ex"
  by (simp add: is_room_available_def room_available_in_flags)

text \<open>Booking b1 marked inactive still blocks room 101 for an overlapping range.\<close>

theorem availability_ignores_is_active_witness:
  "\<not> is_room_available
        (sample_hotel\<lparr>bookings := map (\<lambda>b. b\<lparr>is_active := False\<rparr>) (bookings sample_hotel)\<rparr>)
        ''101'' 739041 739045 None
   \<and> \<not> is_room_available sample_hotel ''101'' 739041 739045 None"
  using availability_ignores_is_active [where h = sample_hotel and f = "\<lambda>b. False"
      and rn = "''101''" and ci = 739041 and co = 739045 and ex = None]
  by (simp add: sample_hotel_def is_room_available_def Booking_def)

end
